theory Spec2Isabelle
  imports Main
begin

section \<open>gootrago: the CSV command, its column selector and its row mapper\<close>

text \<open>
  A shallow embedding of \<^verbatim>\<open>cmd/csv.go\<close> (\<^verbatim>\<open>csvCmd\<close>, \<^verbatim>\<open>decodeColNumbers\<close>,
  \<^verbatim>\<open>titleToNumber\<close>), of \<^verbatim>\<open>readCSVToSlice\<close> and \<^verbatim>\<open>writeSliceToCSV\<close> from
  \<^verbatim>\<open>cmd/common.go\<close>, and of \<^verbatim>\<open>translateEx\<close>, \<^verbatim>\<open>translateBasic\<close> and
  \<^verbatim>\<open>translateAdvanced\<close> from \<^verbatim>\<open>cmd/translateEx.go\<close>.

  Conventions.
  \<^item> A Go \<^verbatim>\<open>string\<close> is a byte sequence: \<^typ>\<open>string\<close>, one \<^typ>\<open>char\<close> per byte.
  \<^item> A Go \<^verbatim>\<open>int\<close> is taken as 64 bits wide: a HOL \<^typ>\<open>int\<close> with the wrap-around
    written out (\<open>wrap64\<close>) where the code does arithmetic on it.
  \<^item> A Go function returning \<^verbatim>\<open>(T, error)\<close> returns an \<open>outcome\<close>: the value, the
    error, or a run-time panic (an index out of range), which is not an error value
    and ends the process.
  \<^item> The file system is a state passed through the command; the translation service, the
    CSV codec of the standard library and what \<^verbatim>\<open>strings.TrimSpace\<close> and
    \<^verbatim>\<open>strings.ToUpper\<close> do beyond ASCII are parameters (\<open>ext\<close>).
\<close>

subsection \<open>Errors and outcomes\<close>

text \<open>
  One constructor for each \<^verbatim>\<open>fmt.Errorf\<close> of the modelled functions; the argument is what
  the format's \<^verbatim>\<open>%v\<close> receives. \<open>External\<close> is an error value made by a library.
\<close>

datatype error =
    External string
  | SameFile string
  | FailedToReadCSV error
  | ErrorOpeningFile error
  | ErrorReadingCSV error
  | ErrorCreatingFile error
  | ErrorWritingHeader error
  | ErrorWritingData error
  | InvalidColumnNumber string
  | ColumnOutOfRange string
  | FailedToTranslate error
  | FailedToCreateClient error
  | InvalidTargetLang error
  | InvalidSourceLang error
  | NoTranslationReturned
  | ProjectIDRequired

datatype 'a outcome = Returns 'a | Fails error | Panics

subsection \<open>The libraries\<close>

text \<open>
  What the command calls outside this repository. A function that returns an error gives
  its message as an option (\<open>None\<close> is \<^verbatim>\<open>nil\<close>); the two translation calls return the
  translated texts together with the error, as the Go calls do; the CSV writer returns the
  bytes that reached the file together with the error. The first two fields are
  \<^verbatim>\<open>strings.TrimSpace\<close> and \<^verbatim>\<open>strings.ToUpper\<close> on a string that has a byte from 128 on,
  where they decode UTF-8 and consult the Unicode tables.
\<close>

record ext =
  strings_TrimSpace_unicode :: "string \<Rightarrow> string"
  strings_ToUpper_unicode :: "string \<Rightarrow> string"
  os_Open_err :: "string \<Rightarrow> string"
  csv_ReadAll :: "char \<Rightarrow> char option \<Rightarrow> string \<Rightarrow> string + string list list"
  os_Create :: "string \<Rightarrow> string option"
  csv_WriteAll :: "char \<Rightarrow> string list list \<Rightarrow> string \<times> string option"
  translateBas_NewClient :: "string \<Rightarrow> string option"
  language_Parse :: "string \<Rightarrow> string option"
  translateBas_Translate :: "string list \<Rightarrow> string \<Rightarrow> string option \<Rightarrow> string list \<times> string option"
  translateAdv_NewTranslationClient :: "string \<Rightarrow> string option"
  translateAdv_TranslateText :: "string \<Rightarrow> string list \<Rightarrow> string \<Rightarrow> string option \<Rightarrow> string list \<times> string option"

subsection \<open>Library functions on strings\<close>

text \<open>
  \<^verbatim>\<open>strings.TrimSpace\<close>, \<^verbatim>\<open>strings.ToUpper\<close> and \<^verbatim>\<open>strconv.Atoi\<close> belong to the Go
  standard library. The first two work on Unicode text. On a string of ASCII bytes only
  they are what is written out here: the white space is tab, line feed, vertical tab, form
  feed, carriage return and space, and upper-casing subtracts 32 from \<^verbatim>\<open>'a'..'z'\<close>. On
  any other string the result is the library's, a parameter (\<open>ext\<close>) about which nothing
  is assumed: a letter whose upper case is an ASCII letter, white space beyond ASCII and
  invalid UTF-8 are all on that side. \<^verbatim>\<open>strconv.Atoi\<close> works on bytes.
\<close>

definition isASCII :: "string \<Rightarrow> bool" where
  "isASCII s = list_all (\<lambda>c. (of_char c :: nat) < 128) s"

definition isSpace :: "char \<Rightarrow> bool" where
  "isSpace c = (c \<in> set [CHR 0x09, CHR 0x0A, CHR 0x0B, CHR 0x0C, CHR 0x0D, CHR '' ''])"

definition strings_TrimSpace :: "ext \<Rightarrow> string \<Rightarrow> string" where
  "strings_TrimSpace x s =
     (if isASCII s then rev (dropWhile isSpace (rev (dropWhile isSpace s)))
      else strings_TrimSpace_unicode x s)"

definition toUpperByte :: "char \<Rightarrow> char" where
  "toUpperByte c =
     (if (of_char CHR ''a'' :: nat) \<le> of_char c \<and> (of_char c :: nat) \<le> of_char CHR ''z''
      then char_of ((of_char c :: nat) - 32) else c)"

definition strings_ToUpper :: "ext \<Rightarrow> string \<Rightarrow> string" where
  "strings_ToUpper x s = (if isASCII s then map toUpperByte s else strings_ToUpper_unicode x s)"

definition isDigit :: "char \<Rightarrow> bool" where
  "isDigit c = ((of_char CHR ''0'' :: nat) \<le> of_char c \<and> (of_char c :: nat) \<le> of_char CHR ''9'')"

definition digitsValue :: "string \<Rightarrow> int" where
  "digitsValue ds = foldl (\<lambda>n ch. n * 10 + (int (of_char ch) - int (of_char CHR ''0''))) 0 ds"

text \<open>
  \<^verbatim>\<open>strconv.Atoi\<close>: an optional sign, then one or more decimal digits and nothing else;
  a value that does not fit 64 bits is an error as well. \<open>None\<close> is \<^verbatim>\<open>err != nil\<close>.
\<close>

definition strconv_Atoi :: "string \<Rightarrow> int option" where
  "strconv_Atoi s =
     (case s of
        [] \<Rightarrow> None
      | c # cs \<Rightarrow>
          (let ds = (if c = CHR ''-'' \<or> c = CHR ''+'' then cs else s) in
           if ds = [] \<or> \<not> list_all isDigit ds then None
           else
             (let n = (if c = CHR ''-'' then - digitsValue ds else digitsValue ds) in
              if n < - (2 ^ 63) \<or> 2 ^ 63 - 1 < n then None else Some n)))"

subsection \<open>\<^verbatim>\<open>titleToNumber\<close>\<close>

definition wrap64 :: "int \<Rightarrow> int" where
  "wrap64 x = (x + 2 ^ 63) mod 2 ^ 64 - 2 ^ 63"

text \<open>
  The loop of \<^verbatim>\<open>titleToNumber\<close> with \<^verbatim>\<open>res\<close> as its accumulator. The source ranges over
  the runes of the string; a rune outside \<^verbatim>\<open>'A'..'Z'\<close> returns 0 from the function, and
  every byte of a rune that is not ASCII is itself outside \<^verbatim>\<open>'A'..'Z'\<close>, so ranging over
  the bytes gives the same result.
\<close>

fun titleToNumber_loop :: "int \<Rightarrow> string \<Rightarrow> int" where
  "titleToNumber_loop res [] = res"
| "titleToNumber_loop res (c # cs) =
     (if (of_char c :: nat) < of_char CHR ''A'' \<or> (of_char CHR ''Z'' :: nat) < of_char c then 0
      else titleToNumber_loop
             (wrap64 (res * 26 + (int (of_char c) - int (of_char CHR ''A'') + 1))) cs)"

definition titleToNumber :: "string \<Rightarrow> int" where
  "titleToNumber columnTitle =
     (let l = length columnTitle in
      if l < 1 then 0 else titleToNumber_loop 0 columnTitle)"

subsection \<open>\<^verbatim>\<open>decodeColNumbers\<close>\<close>

text \<open>
  \<open>colNumberOf\<close> is the classification of one normalised, non-empty token inside the loop
  of \<^verbatim>\<open>decodeColNumbers\<close>: a letter sequence when the first byte is in \<^verbatim>\<open>'A'..'Z'\<close>, a
  decimal number otherwise (\<open>None\<close> when \<^verbatim>\<open>strconv.Atoi\<close> fails).
\<close>

definition colNumberOf :: "string \<Rightarrow> int option" where
  "colNumberOf col =
     (if (of_char CHR ''A'' :: nat) \<le> of_char (hd col) \<and> (of_char (hd col) :: nat) \<le> of_char CHR ''Z''
      then Some (titleToNumber col)
      else strconv_Atoi col)"

text \<open>
  The loop over \<^verbatim>\<open>csvColumn\<close>, with \<^verbatim>\<open>colNumbers\<close> as its accumulator. \<^verbatim>\<open>col[0]\<close> is
  read before anything else is known about \<^verbatim>\<open>col\<close>: on the empty string the index is
  out of range and the program panics.
\<close>

fun decodeColNumbers_loop ::
  "ext \<Rightarrow> int list \<Rightarrow> string list \<Rightarrow> int \<Rightarrow> int list outcome" where
  "decodeColNumbers_loop x colNumbers [] csvWidth = Returns colNumbers"
| "decodeColNumbers_loop x colNumbers (c # cs) csvWidth =
     (let col = strings_ToUpper x (strings_TrimSpace x c) in
      if col = [] then Panics
      else
        (case colNumberOf col of
           None \<Rightarrow> Fails (InvalidColumnNumber col)
         | Some colNumber \<Rightarrow>
             if colNumber < 1 \<or> csvWidth < colNumber then Fails (ColumnOutOfRange col)
             else decodeColNumbers_loop x (colNumbers @ [colNumber]) cs csvWidth))"

definition decodeColNumbers :: "ext \<Rightarrow> string list \<Rightarrow> int \<Rightarrow> int list outcome" where
  "decodeColNumbers x csvColumn csvWidth = decodeColNumbers_loop x [] csvColumn csvWidth"

subsection \<open>Configuration, the world and the libraries\<close>

text \<open>
  The package-level variables bound to the command line flags (\<^verbatim>\<open>cmd/root.go\<close>, and the
  three flags of the CSV command) are read-only once the command runs: a record.
\<close>

record config =
  inputFile :: string
  outputFile :: string
  sourceLang :: string
  targetLang :: string
  projectID :: string
  credentials :: string
  useAdvanced :: bool
  csvColumn :: "string list"
  csvDelimiter :: string
  csvComment :: string

text \<open>
  The world is the content of the readable files, by path, and the log of the paths that
  \<^verbatim>\<open>os.Create\<close> has created or truncated, latest first.
\<close>

record world =
  files :: "string \<rightharpoonup> string"
  created :: "string list"

subsection \<open>Reading and writing CSV files\<close>

definition readCSVToSlice ::
  "ext \<Rightarrow> world \<Rightarrow> string \<Rightarrow> bool \<Rightarrow> string \<Rightarrow> string \<Rightarrow> string list list outcome" where
  "readCSVToSlice x w filename hasHeader delimiter comment =
     (case files w filename of
        None \<Rightarrow> Fails (ErrorOpeningFile (External (os_Open_err x filename)))
      | Some content \<Rightarrow>
          (let comma = (if delimiter \<noteq> [] then hd delimiter else CHR '','');
               cmt = (if comment \<noteq> [] then Some (hd comment) else None)
           in case csv_ReadAll x comma cmt content of
                Inl e \<Rightarrow> Fails (ErrorReadingCSV (External e))
              | Inr records \<Rightarrow>
                  Returns (if hasHeader \<and> 0 < length records then tl records else records)))"

definition writeSliceToCSV ::
  "ext \<Rightarrow> world \<Rightarrow> string \<Rightarrow> string list list \<Rightarrow> string list option \<Rightarrow> string
     \<Rightarrow> unit outcome \<times> world" where
  "writeSliceToCSV x w filename data header delimiter =
     (case os_Create x filename of
        Some e \<Rightarrow> (Fails (ErrorCreatingFile (External e)), w)
      | None \<Rightarrow>
          (let comma = (if delimiter \<noteq> [] then hd delimiter else CHR '','');
               w1 = w\<lparr>created := filename # created w\<rparr>;
               (hdr, hdrErr) = (case header of None \<Rightarrow> ([], None)
                                | Some h \<Rightarrow> csv_WriteAll x comma [h])
           in case hdrErr of
                Some e \<Rightarrow> (Fails (ErrorWritingHeader (External e)),
                           w1\<lparr>files := (files w)(filename \<mapsto> hdr)\<rparr>)
              | None \<Rightarrow>
                  (let (body, err) = csv_WriteAll x comma data;
                       w2 = w1\<lparr>files := (files w)(filename \<mapsto> hdr @ body)\<rparr>
                   in case err of
                        Some e \<Rightarrow> (Fails (ErrorWritingData (External e)), w2)
                      | None \<Rightarrow> (Returns (), w2))))"

subsection \<open>The translation dispatcher\<close>

text \<open>
  \<^verbatim>\<open>translateBasic\<close>. In the branch for a given source language the source declares a new
  \<^verbatim>\<open>err\<close> (\<^verbatim>\<open>sourceLangTag, err := language.Parse(sourceLang)\<close>), and the call of
  \<^verbatim>\<open>client.Translate\<close> assigns to that one: the check \<^verbatim>\<open>err != nil\<close> after the branch
  reads the outer \<^verbatim>\<open>err\<close>, which is still \<^verbatim>\<open>nil\<close>. So only the branch for
  \<^verbatim>\<open>"auto"\<close> reports the error of the call itself.
\<close>

definition translateBasic :: "ext \<Rightarrow> config \<Rightarrow> string list \<Rightarrow> string list outcome" where
  "translateBasic x cfg strInp =
     (case translateBas_NewClient x (credentials cfg) of
        Some e \<Rightarrow> Fails (FailedToCreateClient (External e))
      | None \<Rightarrow>
          (case language_Parse x (targetLang cfg) of
             Some e \<Rightarrow> Fails (InvalidTargetLang (External e))
           | None \<Rightarrow>
               (if sourceLang cfg = ''auto'' then
                  (let (translations, err) = translateBas_Translate x strInp (targetLang cfg) None
                   in case err of
                        Some e \<Rightarrow> Fails (FailedToTranslate (External e))
                      | None \<Rightarrow>
                          if length translations = 0 then Fails NoTranslationReturned
                          else Returns translations)
                else
                  (case language_Parse x (sourceLang cfg) of
                     Some e \<Rightarrow> Fails (InvalidSourceLang (External e))
                   | None \<Rightarrow>
                       (let (translations, err) =
                              translateBas_Translate x strInp (targetLang cfg) (Some (sourceLang cfg))
                        in if length translations = 0 then Fails NoTranslationReturned
                           else Returns translations)))))"

definition translateAdvanced :: "ext \<Rightarrow> config \<Rightarrow> string list \<Rightarrow> string list outcome" where
  "translateAdvanced x cfg strInp =
     (if projectID cfg = [] then Fails ProjectIDRequired
      else
        (case translateAdv_NewTranslationClient x (credentials cfg) of
           Some e \<Rightarrow> Fails (FailedToCreateClient (External e))
         | None \<Rightarrow>
             (let parent = ''projects/'' @ projectID cfg @ ''/locations/global'';
                  src = (if sourceLang cfg \<noteq> ''auto'' then Some (sourceLang cfg) else None);
                  (translations, err) = translateAdv_TranslateText x parent strInp (targetLang cfg) src
              in case err of
                   Some e \<Rightarrow> Fails (FailedToTranslate (External e))
                 | None \<Rightarrow>
                     if length translations = 0 then Fails NoTranslationReturned
                     else Returns translations)))"

definition translateEx :: "ext \<Rightarrow> config \<Rightarrow> string list \<Rightarrow> bool \<Rightarrow> string list outcome" where
  "translateEx x cfg strInp advanced =
     (case (if advanced then translateAdvanced x cfg strInp else translateBasic x cfg strInp) of
        Fails err \<Rightarrow> Fails (FailedToTranslate err)
      | Panics \<Rightarrow> Panics
      | Returns strOut \<Rightarrow> Returns strOut)"

subsection \<open>The CSV command\<close>

text \<open>
  The two inner loops of the column branch. \<open>gatherCols\<close> appends \<^verbatim>\<open>row[v-1]\<close> for each
  \<^verbatim>\<open>v\<close> of \<^verbatim>\<open>colNumbers\<close>; \<open>scatterCols\<close> runs \<^verbatim>\<open>row[colNumbers[k]-1] = v\<close> for each
  \<^verbatim>\<open>k, v\<close> of \<^verbatim>\<open>strOut\<close>. Every index is checked as Go checks it: out of range is a
  panic.
\<close>

fun gatherCols :: "string list \<Rightarrow> int list \<Rightarrow> string list \<Rightarrow> string list outcome" where
  "gatherCols strInp [] row = Returns strInp"
| "gatherCols strInp (v # vs) row =
     (if 0 \<le> v - 1 \<and> v - 1 < int (length row)
      then gatherCols (strInp @ [row ! nat (v - 1)]) vs row
      else Panics)"

fun scatterCols :: "int list \<Rightarrow> nat \<Rightarrow> string list \<Rightarrow> string list \<Rightarrow> string list outcome" where
  "scatterCols colNumbers k [] row = Returns row"
| "scatterCols colNumbers k (v # vs) row =
     (if k < length colNumbers
      then (if 0 \<le> colNumbers ! k - 1 \<and> colNumbers ! k - 1 < int (length row)
            then scatterCols colNumbers (Suc k) vs (row[nat (colNumbers ! k - 1) := v])
            else Panics)
      else Panics)"

text \<open>
  The body of the loop over the rows, for one row; \<open>tr\<close> is the dispatcher,
  \<^verbatim>\<open>translateEx(_, useAdvanced)\<close> in the command. The result is the row as the table holds
  it after the iteration.
\<close>

definition translateRow ::
  "(string list \<Rightarrow> string list outcome) \<Rightarrow> int list \<Rightarrow> string list \<Rightarrow> string list outcome" where
  "translateRow tr colNumbers row =
     (if length colNumbers = 0 then
        (case tr row of
           Fails err \<Rightarrow> Fails (FailedToTranslate err)
         | Panics \<Rightarrow> Panics
         | Returns strOut \<Rightarrow> Returns strOut)
      else
        (case gatherCols [] colNumbers row of
           Fails err \<Rightarrow> Fails err
         | Panics \<Rightarrow> Panics
         | Returns strInp \<Rightarrow>
             (case tr strInp of
                Fails err \<Rightarrow> Fails (FailedToTranslate err)
              | Panics \<Rightarrow> Panics
              | Returns strOut \<Rightarrow> scatterCols colNumbers 0 strOut row)))"

text \<open>The loop over the rows: the first row that does not complete ends the command.\<close>

fun translateRows ::
  "(string list \<Rightarrow> string list outcome) \<Rightarrow> int list \<Rightarrow> string list list
     \<Rightarrow> string list list outcome" where
  "translateRows tr colNumbers [] = Returns []"
| "translateRows tr colNumbers (row # rows) =
     (case translateRow tr colNumbers row of
        Fails err \<Rightarrow> Fails err
      | Panics \<Rightarrow> Panics
      | Returns row' \<Rightarrow>
          (case translateRows tr colNumbers rows of
             Fails err \<Rightarrow> Fails err
           | Panics \<Rightarrow> Panics
           | Returns rows' \<Rightarrow> Returns (row' # rows')))"

text \<open>
  \<^verbatim>\<open>csvCmd.RunE\<close>. \<^verbatim>\<open>len(csv[0])\<close> indexes the records before any check of their number:
  on an empty table the program panics.
\<close>

definition csvCmd :: "ext \<Rightarrow> config \<Rightarrow> world \<Rightarrow> unit outcome \<times> world" where
  "csvCmd x cfg w =
     (if inputFile cfg = outputFile cfg then (Fails (SameFile (inputFile cfg)), w)
      else
        (case readCSVToSlice x w (inputFile cfg) False (csvDelimiter cfg) (csvComment cfg) of
           Fails err \<Rightarrow> (Fails (FailedToReadCSV err), w)
         | Panics \<Rightarrow> (Panics, w)
         | Returns csv \<Rightarrow>
             (if csv = [] then (Panics, w)
              else
                (case decodeColNumbers x (csvColumn cfg) (int (length (hd csv))) of
                   Fails err \<Rightarrow> (Fails err, w)
                 | Panics \<Rightarrow> (Panics, w)
                 | Returns colNumbers \<Rightarrow>
                     (case translateRows (\<lambda>strInp. translateEx x cfg strInp (useAdvanced cfg))
                             colNumbers csv of
                        Fails err \<Rightarrow> (Fails err, w)
                      | Panics \<Rightarrow> (Panics, w)
                      | Returns csv' \<Rightarrow>
                          writeSliceToCSV x w (outputFile cfg) csv' None (csvDelimiter cfg))))))"

subsection \<open>Test doubles\<close>

text \<open>
  A concrete \<open>ext\<close> for evaluating the command: a CSV codec without quoting (records
  are the non-empty lines, fields are split at the delimiter), a file system where every
  file can be created, and a translation service that upper-cases the ASCII letters of
  each text. Its two string functions for text beyond ASCII return their argument: the
  test doubles are evaluated on ASCII tokens only, where these are not called.
\<close>

fun splitOn :: "char \<Rightarrow> string \<Rightarrow> string list" where
  "splitOn d [] = [[]]"
| "splitOn d (c # cs) =
     (if c = d then [] # splitOn d cs
      else (case splitOn d cs of [] \<Rightarrow> [[c]] | f # fs \<Rightarrow> (c # f) # fs))"

fun joinWith :: "char \<Rightarrow> string list \<Rightarrow> string" where
  "joinWith d [] = []"
| "joinWith d [f] = f"
| "joinWith d (f # fs) = f @ d # joinWith d fs"

definition stub_ext :: ext where
  "stub_ext =
     \<lparr> strings_TrimSpace_unicode = (\<lambda>s. s),
       strings_ToUpper_unicode = (\<lambda>s. s),
       os_Open_err = (\<lambda>filename. ''no such file or directory''),
       csv_ReadAll = (\<lambda>comma cmt content.
          Inr (map (splitOn comma) (filter (\<lambda>l. l \<noteq> []) (splitOn (CHR 0x0A) content)))),
       os_Create = (\<lambda>filename. None),
       csv_WriteAll = (\<lambda>comma data.
          (concat (map (\<lambda>record. joinWith comma record @ [CHR 0x0A]) data), None)),
       translateBas_NewClient = (\<lambda>creds. None),
       language_Parse = (\<lambda>tag. None),
       translateBas_Translate = (\<lambda>inputs target source. (map (map toUpperByte) inputs, None)),
       translateAdv_NewTranslationClient = (\<lambda>creds. None),
       translateAdv_TranslateText = (\<lambda>parent contents target source.
          (map (map toUpperByte) contents, None)) \<rparr>"

definition stub_config :: config where
  "stub_config =
     \<lparr> inputFile = ''in.csv'', outputFile = ''out.csv'', sourceLang = ''auto'',
       targetLang = ''es'', projectID = [], credentials = [], useAdvanced = False,
       csvColumn = [], csvDelimiter = [], csvComment = [] \<rparr>"

definition stub_world :: "string \<Rightarrow> world" where
  "stub_world content = \<lparr> files = [''in.csv'' \<mapsto> content], created = [] \<rparr>"

definition upcase :: "string list \<Rightarrow> string list outcome" where
  "upcase strInp = Returns (map (map toUpperByte) strInp)"

subsection \<open>Notions used in the statements\<close>

text \<open>
  The normalised token, as the loop of \<^verbatim>\<open>decodeColNumbers\<close> computes it, and the decoding of
  one reference: \<^verbatim>\<open>decodeColNumbers\<close> on the list of that reference alone.
\<close>

definition normalise :: "ext \<Rightarrow> string \<Rightarrow> string" where
  "normalise x c = strings_ToUpper x (strings_TrimSpace x c)"

definition decodeOne :: "ext \<Rightarrow> string \<Rightarrow> int \<Rightarrow> int outcome" where
  "decodeOne x c csvWidth =
     (case decodeColNumbers x [c] csvWidth of
        Returns colNumbers \<Rightarrow> Returns (hd colNumbers)
      | Fails err \<Rightarrow> Fails err
      | Panics \<Rightarrow> Panics)"

text \<open>
  The fields of a row at the column numbers, in their order, and the column numbers that
  lie within a row.
\<close>

definition batchOf :: "int list \<Rightarrow> string list \<Rightarrow> string list" where
  "batchOf colNumbers row = map (\<lambda>v. row ! nat (v - 1)) colNumbers"

definition validFor :: "int list \<Rightarrow> string list \<Rightarrow> bool" where
  "validFor colNumbers row = list_all (\<lambda>v. 1 \<le> v \<and> v \<le> int (length row)) colNumbers"

text \<open>The dispatcher as the command calls it, and the table the command reads.\<close>

definition dispatcher :: "ext \<Rightarrow> config \<Rightarrow> string list \<Rightarrow> string list outcome" where
  "dispatcher x cfg strInp = translateEx x cfg strInp (useAdvanced cfg)"

definition readInput :: "ext \<Rightarrow> config \<Rightarrow> world \<Rightarrow> string list list outcome" where
  "readInput x cfg w =
     readCSVToSlice x w (inputFile cfg) False (csvDelimiter cfg) (csvComment cfg)"

text \<open>A translation service that answers every request with the one text \<^verbatim>\<open>X\<close>.\<close>

definition short_ext :: ext where
  "short_ext = stub_ext\<lparr> translateBas_Translate := (\<lambda>inputs target source. ([''X''], None)) \<rparr>"

text \<open>A translation service that fails on the batch \<^verbatim>\<open>["Alice"]\<close> and upper-cases the others.\<close>

definition failing_ext :: ext where
  "failing_ext = stub_ext\<lparr> translateBas_Translate := (\<lambda>inputs target source.
      if inputs = [''Alice''] then ([], Some ''quota exceeded'')
      else (map (map toUpperByte) inputs, None)) \<rparr>"

definition people :: string where
  "people = ''John,30\<newline>Alice,25\<newline>''"

text \<open>The letters of a column title.\<close>

definition letters :: string where
  "letters = ''ABCDEFGHIJKLMNOPQRSTUVWXYZ''"

definition inAZ :: "char \<Rightarrow> bool" where
  "inAZ c = ((of_char CHR ''A'' :: nat) \<le> of_char c \<and> (of_char c :: nat) \<le> of_char CHR ''Z'')"

text \<open>
  Bijective base 26 as the specification words it: the value of a letter is its position
  in \<^verbatim>\<open>'A'..'Z'\<close>, from 1, and the letters are accumulated from left to right with
  \<open>result * 26 + charValue\<close>, over the unbounded integers.
\<close>

definition spec_charValue :: "char \<Rightarrow> int" where
  "spec_charValue c = int (length (takeWhile (\<lambda>x. x \<noteq> c) letters)) + 1"

definition spec_letterSequence :: "string \<Rightarrow> int" where
  "spec_letterSequence cs = foldl (\<lambda>result c. result * 26 + spec_charValue c) 0 cs"

text \<open>
  The decoded value of a normalised token as the specification words it (4.1), over the
  unbounded integers. A token whose first character lies in \<^verbatim>\<open>'A'..'Z'\<close> is a letter
  sequence: its bijective base-26 value, or 0 when it has a character outside
  \<^verbatim>\<open>'A'..'Z'\<close>. Any other token is a decimal reference: its value as a base-10 integer
  (an optional sign and digits), and no value when it is not one. The empty token decodes
  to 0.
\<close>

definition spec_decimalValue :: "string \<Rightarrow> int option" where
  "spec_decimalValue tok =
     (case tok of
        [] \<Rightarrow> None
      | c # cs \<Rightarrow>
          (let ds = (if c = CHR ''-'' \<or> c = CHR ''+'' then cs else tok) in
           if ds = [] \<or> \<not> list_all isDigit ds then None
           else Some (if c = CHR ''-'' then - digitsValue ds else digitsValue ds)))"

definition spec_decodedValue :: "string \<Rightarrow> int option" where
  "spec_decodedValue tok =
     (if tok = [] then Some 0
      else if inAZ (hd tok) then (if list_all inAZ tok then Some (spec_letterSequence tok) else Some 0)
      else spec_decimalValue tok)"

section \<open>Properties\<close>

subsection \<open>Letter sequences\<close>

lemma single_letters: "list_all (\<lambda>i. titleToNumber [letters ! (i - 1)] = int i) [1..<27]"
  by code_simp

lemma inAZ_letters: "inAZ c \<Longrightarrow> c \<in> set letters"
proof -
  assume "inAZ c"
  then have "(of_char c :: nat) \<in> {65..<91}" by (simp add: inAZ_def)
  then have "(of_char c :: nat) \<in> set [65..<91]" by (simp only: set_upt)
  then have "char_of (of_char c :: nat) \<in> char_of ` set [65..<91::nat]" by (rule imageI)
  then have "c \<in> set (map char_of [65..<91::nat])" by simp
  also have "map char_of [65..<91::nat] = letters" by code_simp
  finally show ?thesis .
qed

lemma letters_charValue:
  "list_all (\<lambda>c. spec_charValue c = int (of_char c) - int (of_char CHR ''A'') + 1) letters"
  by code_simp

lemma spec_charValue_inAZ:
  "inAZ c \<Longrightarrow> spec_charValue c = int (of_char c) - int (of_char CHR ''A'') + 1"
  using letters_charValue inAZ_letters [of c] by (simp add: list_all_iff)

lemma spec_charValue_range: "inAZ c \<Longrightarrow> 1 \<le> spec_charValue c \<and> spec_charValue c \<le> 26"
  by (simp add: spec_charValue_inAZ) (simp add: inAZ_def)

lemma titleToNumber_loop_snoc:
  "list_all inAZ cs \<Longrightarrow> inAZ c \<Longrightarrow>
   titleToNumber_loop res (cs @ [c]) = wrap64 (titleToNumber_loop res cs * 26 + spec_charValue c)"
proof (induction cs arbitrary: res)
  case Nil
  then show ?case by (simp add: spec_charValue_inAZ) (simp add: inAZ_def)
next
  case (Cons a cs)
  then show ?case by (simp add: inAZ_def)
qed

lemma titleToNumber_eq_loop: "titleToNumber cs = titleToNumber_loop 0 cs"
  by (cases cs) (simp_all add: titleToNumber_def)

lemma titleToNumber_snoc:
  "list_all inAZ cs \<Longrightarrow> inAZ c \<Longrightarrow>
   titleToNumber (cs @ [c]) = wrap64 (titleToNumber cs * 26 + spec_charValue c)"
  by (simp add: titleToNumber_eq_loop titleToNumber_loop_snoc)

lemma spec_letterSequence_snoc:
  "spec_letterSequence (cs @ [c]) = spec_letterSequence cs * 26 + spec_charValue c"
  by (simp add: spec_letterSequence_def)

lemma spec_letterSequence_bound:
  "list_all inAZ cs \<Longrightarrow>
   0 \<le> spec_letterSequence cs \<and> 25 * spec_letterSequence cs + 26 \<le> 26 ^ (length cs + 1)"
proof (induction cs rule: rev_induct)
  case Nil
  then show ?case by (simp add: spec_letterSequence_def)
next
  case (snoc c cs)
  then have ih: "0 \<le> spec_letterSequence cs"
      "25 * spec_letterSequence cs + 26 \<le> 26 ^ (length cs + 1)"
    and c: "1 \<le> spec_charValue c" "spec_charValue c \<le> 26"
    using spec_charValue_range [of c] by simp_all
  from ih c show ?case by (simp add: spec_letterSequence_snoc)
qed

lemma wrap64_id: "- (2 ^ 63) \<le> x \<Longrightarrow> x < 2 ^ 63 \<Longrightarrow> wrap64 x = x"
  by (simp add: wrap64_def)

lemma spec_letterSequence_small:
  assumes "list_all inAZ cs" "length cs \<le> 13"
  shows "0 \<le> spec_letterSequence cs \<and> spec_letterSequence cs < 2 ^ 63"
proof -
  have "(26::int) ^ (length cs + 1) \<le> 26 ^ 14"
    using assms(2) by (intro power_increasing) simp_all
  with spec_letterSequence_bound [OF assms(1)] show ?thesis by simp
qed

lemma titleToNumber_no_overflow:
  "list_all inAZ cs \<Longrightarrow> length cs \<le> 13 \<Longrightarrow> titleToNumber cs = spec_letterSequence cs"
proof (induction cs rule: rev_induct)
  case Nil
  then show ?case by (simp add: titleToNumber_def spec_letterSequence_def)
next
  case (snoc c cs)
  then have eq: "titleToNumber cs = spec_letterSequence cs"
    and az: "list_all inAZ cs" "inAZ c" by simp_all
  have "0 \<le> spec_letterSequence (cs @ [c]) \<and> spec_letterSequence (cs @ [c]) < 2 ^ 63"
    using snoc.prems by (intro spec_letterSequence_small) simp_all
  then have "wrap64 (spec_letterSequence (cs @ [c])) = spec_letterSequence (cs @ [c])"
    by (intro wrap64_id) simp_all
  then show ?case by (simp add: titleToNumber_snoc az eq spec_letterSequence_snoc)
qed

lemma titleToNumber_examples:
  "titleToNumber ''AA'' = 27 \<and> titleToNumber ''AZ'' = 52 \<and> titleToNumber ''BA'' = 53
   \<and> titleToNumber ''ZZ'' = 702"
  by code_simp

text \<open>
  C1. \<^verbatim>\<open>titleToNumber\<close> is bijective base 26. The single letter at position \<open>i\<close> of
  \<^verbatim>\<open>'A'..'Z'\<close>, \<open>1 \<le> i \<le> 26\<close>, decodes to \<open>i\<close>. Decoding goes from left to right: a
  letter sequence followed by one more letter decodes to the value of the sequence times
  26 plus the value of the letter (in 64-bit arithmetic, as the code computes it), and up
  to 13 letters, where nothing overflows, the result is the bijective base-26 value of the
  specification. \<^verbatim>\<open>AA\<close> is 27, \<^verbatim>\<open>AZ\<close> is 52, \<^verbatim>\<open>BA\<close> is 53 and \<^verbatim>\<open>ZZ\<close> is 702.
\<close>

theorem titleToNumber_bijective_base26:
  "(1 \<le> i \<and> i \<le> 26 \<longrightarrow> titleToNumber [letters ! (i - 1)] = int i)
   \<and> (list_all inAZ cs \<and> inAZ c \<longrightarrow>
        titleToNumber (cs @ [c]) = wrap64 (titleToNumber cs * 26 + spec_charValue c))
   \<and> (list_all inAZ cs \<and> length cs \<le> 13 \<longrightarrow> titleToNumber cs = spec_letterSequence cs)
   \<and> spec_charValue CHR ''A'' = 1 \<and> spec_charValue CHR ''Z'' = 26
   \<and> titleToNumber ''AA'' = 27 \<and> titleToNumber ''AZ'' = 52 \<and> titleToNumber ''BA'' = 53
   \<and> titleToNumber ''ZZ'' = 702"
proof -
  have "1 \<le> i \<and> i \<le> 26 \<longrightarrow> titleToNumber [letters ! (i - 1)] = int i"
    using single_letters by (simp add: list_all_iff)
  moreover have "spec_charValue CHR ''A'' = 1 \<and> spec_charValue CHR ''Z'' = 26"
    by code_simp
  ultimately show ?thesis
    using titleToNumber_snoc [of cs c] titleToNumber_no_overflow [of cs] titleToNumber_examples
    by blast
qed

theorem titleToNumber_bijective_base26_witness:
  "titleToNumber [letters ! (3 - 1)] = int 3
   \<and> titleToNumber (''AB'' @ [CHR ''C'']) = wrap64 (titleToNumber ''AB'' * 26 + spec_charValue CHR ''C'')
   \<and> titleToNumber ''AB'' = spec_letterSequence ''AB''"
  using titleToNumber_bijective_base26 [of 3 "''AB''" "CHR ''C''"]
  by (simp add: inAZ_def)

subsection \<open>The column selector\<close>

lemma titleToNumber_loop_not_letters:
  "\<not> list_all inAZ cs \<Longrightarrow> titleToNumber_loop res cs = 0"
  by (induction cs arbitrary: res) (auto simp: inAZ_def)

lemma titleToNumber_not_letters: "\<not> list_all inAZ cs \<Longrightarrow> titleToNumber cs = 0"
  by (simp add: titleToNumber_eq_loop titleToNumber_loop_not_letters)

lemma titleToNumber_in_range:
  "list_all inAZ cs \<Longrightarrow> spec_letterSequence cs < 2 ^ 63 \<Longrightarrow>
   titleToNumber cs = spec_letterSequence cs"
proof (induction cs rule: rev_induct)
  case Nil
  then show ?case by (simp add: titleToNumber_def spec_letterSequence_def)
next
  case (snoc c cs)
  then have az: "list_all inAZ cs" "inAZ c" by simp_all
  from az(1) have nonneg: "0 \<le> spec_letterSequence cs"
    using spec_letterSequence_bound by blast
  from az(2) have cv: "1 \<le> spec_charValue c" using spec_charValue_range by blast
  from snoc.prems(2) have top: "spec_letterSequence cs * 26 + spec_charValue c < 2 ^ 63"
    by (simp add: spec_letterSequence_snoc)
  with nonneg cv have "spec_letterSequence cs < 2 ^ 63" by linarith
  with snoc.IH az(1) have eq: "titleToNumber cs = spec_letterSequence cs" by blast
  have "- (2 ^ 63) \<le> (0 :: int)" by simp
  with nonneg cv have "- (2 ^ 63) \<le> spec_letterSequence cs * 26 + spec_charValue c" by linarith
  with top have "wrap64 (spec_letterSequence cs * 26 + spec_charValue c)
      = spec_letterSequence cs * 26 + spec_charValue c"
    by (intro wrap64_id)
  then show ?case by (simp add: titleToNumber_snoc az eq spec_letterSequence_snoc)
qed

lemma strconv_Atoi_spec:
  "strconv_Atoi tok =
     (case spec_decimalValue tok of
        None \<Rightarrow> None
      | Some n \<Rightarrow> if n < - (2 ^ 63) \<or> 2 ^ 63 - 1 < n then None else Some n)"
  by (simp add: strconv_Atoi_def spec_decimalValue_def Let_def split: list.splits)

lemma colNumberOf_spec_value:
  assumes "tok \<noteq> []" "spec_decodedValue tok = Some v" "- (2 ^ 63) \<le> v" "v < 2 ^ 63"
  shows "colNumberOf tok = Some v"
proof (cases "inAZ (hd tok)")
  case True
  then have c: "colNumberOf tok = Some (titleToNumber tok)"
    by (simp add: colNumberOf_def inAZ_def)
  show ?thesis
  proof (cases "list_all inAZ tok")
    case letters: True
    with assms True have "v = spec_letterSequence tok" by (simp add: spec_decodedValue_def)
    with assms(4) letters c show ?thesis by (simp add: titleToNumber_in_range)
  next
    case False
    with assms True have "v = 0" by (simp add: spec_decodedValue_def)
    with False c show ?thesis by (simp add: titleToNumber_not_letters)
  qed
next
  case False
  with assms have "spec_decimalValue tok = Some v" by (simp add: spec_decodedValue_def)
  moreover from False have "colNumberOf tok = strconv_Atoi tok"
    by (auto simp: colNumberOf_def inAZ_def)
  ultimately show ?thesis using assms(3,4) by (simp add: strconv_Atoi_spec)
qed

lemma colNumberOf_spec_none:
  assumes "tok \<noteq> []" "spec_decodedValue tok = None"
  shows "colNumberOf tok = None"
proof -
  from assms have "\<not> inAZ (hd tok)" "spec_decimalValue tok = None"
    by (auto simp: spec_decodedValue_def split: if_splits)
  then show ?thesis by (simp add: colNumberOf_def inAZ_def strconv_Atoi_spec)
qed

lemma decodeOne_eq:
  "decodeOne x c w =
     (let col = normalise x c in
      if col = [] then Panics
      else (case colNumberOf col of
              None \<Rightarrow> Fails (InvalidColumnNumber col)
            | Some colNumber \<Rightarrow>
                if colNumber < 1 \<or> w < colNumber then Fails (ColumnOutOfRange col)
                else Returns colNumber))"
  by (simp add: decodeOne_def decodeColNumbers_def normalise_def Let_def split: option.splits)

lemma decodeColNumbers_loop_acc:
  "decodeColNumbers_loop x acc cs w =
     (case decodeColNumbers_loop x [] cs w of
        Returns vs \<Rightarrow> Returns (acc @ vs)
      | Fails err \<Rightarrow> Fails err
      | Panics \<Rightarrow> Panics)"
proof (induction cs arbitrary: acc)
  case Nil
  show ?case by simp
next
  case (Cons c cs)
  have step: "\<And>n. decodeColNumbers_loop x [n] cs w =
     (case decodeColNumbers_loop x [] cs w of Returns vs \<Rightarrow> Returns ([n] @ vs)
      | Fails err \<Rightarrow> Fails err | Panics \<Rightarrow> Panics)"
    by (rule Cons.IH)
  show ?case
    by (simp add: Let_def Cons.IH [of "acc @ [n]" for n] step split: option.splits outcome.splits)
qed

lemma decodeColNumbers_Cons:
  "decodeColNumbers x (c # cs) w =
     (case decodeOne x c w of
        Returns v \<Rightarrow>
          (case decodeColNumbers x cs w of
             Returns vs \<Rightarrow> Returns (v # vs)
           | Fails err \<Rightarrow> Fails err
           | Panics \<Rightarrow> Panics)
      | Fails err \<Rightarrow> Fails err
      | Panics \<Rightarrow> Panics)"
proof -
  have step: "\<And>n. decodeColNumbers_loop x [n] cs w =
     (case decodeColNumbers_loop x [] cs w of Returns vs \<Rightarrow> Returns ([n] @ vs)
      | Fails err \<Rightarrow> Fails err | Panics \<Rightarrow> Panics)"
    by (rule decodeColNumbers_loop_acc)
  show ?thesis
    by (simp add: decodeOne_eq decodeColNumbers_def normalise_def Let_def step
        split: option.splits outcome.splits)
qed

lemma decodeColNumbers_Nil: "decodeColNumbers x [] w = Returns []"
  by (simp add: decodeColNumbers_def)

lemma decodeColNumbers_Returns_iff:
  "decodeColNumbers x cs w = Returns vs \<longleftrightarrow>
   list_all2 (\<lambda>c v. decodeOne x c w = Returns v) cs vs"
proof (induction cs arbitrary: vs)
  case Nil
  show ?case by (auto simp: decodeColNumbers_Nil)
next
  case (Cons c cs)
  show ?case
  proof (cases vs)
    case Nil
    then show ?thesis by (simp add: decodeColNumbers_Cons split: outcome.splits)
  next
    case (Cons v vs')
    show ?thesis
      unfolding Cons list_all2_Cons Cons.IH [symmetric]
      by (auto simp: decodeColNumbers_Cons split: outcome.splits)
  qed
qed

lemma decodeColNumbers_first_failure:
  "list_all (\<lambda>c. \<exists>v. decodeOne x c w = Returns v) pre \<Longrightarrow> decodeOne x c w = Fails err \<Longrightarrow>
   decodeColNumbers x (pre @ c # post) w = Fails err"
  by (induction pre) (auto simp: decodeColNumbers_Cons split: outcome.splits)

lemma strings_ToUpper_Nil: "strings_ToUpper x [] = []"
  by (simp add: strings_ToUpper_def isASCII_def)

lemma decodeOne_empty_token: "strings_TrimSpace x c = [] \<Longrightarrow> decodeOne x c w = Panics"
  by (simp add: decodeOne_eq normalise_def strings_ToUpper_Nil)

lemma decodeOne_examples:
  "decodeOne stub_ext ''b'' 3 = Returns 2" "decodeOne stub_ext ''1'' 3 = Returns 1"
  "decodeOne stub_ext ''B'' 3 = Returns 2" "decodeOne stub_ext ''a'' 3 = Returns 1"
  "decodeOne stub_ext ''zz'' 3 = Fails (ColumnOutOfRange ''ZZ'')"
  "decodeOne stub_ext '' 7 '' 3 = Fails (ColumnOutOfRange ''7'')"
  "decodeOne stub_ext ''1A'' 3 = Fails (InvalidColumnNumber ''1A'')"
  "decodeOne stub_ext ''A1'' 3 = Fails (ColumnOutOfRange ''A1'')"
  by code_simp+

text \<open>
  Where the code leaves the specified value: a letter sequence whose value does not fit 64
  bits wraps around, and a decimal token whose value does not fit is not a number for
  \<^verbatim>\<open>strconv.Atoi\<close>.
\<close>

lemma decodeOne_beyond_64_bits:
  "spec_decodedValue (normalise stub_ext ''gkgwbylwrxtlpq'') = Some (2 ^ 64 + 1)"
  "decodeOne stub_ext ''gkgwbylwrxtlpq'' 3 = Returns 1"
  "spec_decodedValue (normalise stub_ext ''99999999999999999999'') = Some 99999999999999999999"
  "decodeOne stub_ext ''99999999999999999999'' 3
     = Fails (InvalidColumnNumber ''99999999999999999999'')"
  by code_simp+

text \<open>
  C4 (the code departs from the claim). A token that is empty after trimming does not decode
  to 0 and fail with the out-of-range error: \<^verbatim>\<open>decodeColNumbers\<close> reads \<^verbatim>\<open>col[0]\<close> of the
  empty string and panics. \<^verbatim>\<open>titleToNumber\<close> itself has the guard for the empty string and
  returns 0, but it is never reached. The two tokens are ASCII, so this is so whatever the
  library does beyond ASCII.
\<close>

theorem decodeColNumbers_empty_token_panics:
  "strings_TrimSpace x '' '' = [] \<and> decodeColNumbers x ['' ''] 3 = Panics
   \<and> decodeColNumbers x [''1'', []] 3 = Panics \<and> titleToNumber [] = 0"
proof -
  have t: "strings_TrimSpace x '' '' = []" "strings_TrimSpace x [] = []"
    by (simp_all add: strings_TrimSpace_def isASCII_def isSpace_def)
  have one: "decodeOne x ''1'' 3 = Returns 1"
    by (simp add: decodeOne_eq normalise_def strings_TrimSpace_def strings_ToUpper_def
        isASCII_def isSpace_def toUpperByte_def colNumberOf_def strconv_Atoi_def isDigit_def
        digitsValue_def)
  from t one show ?thesis
    by (simp add: decodeColNumbers_Cons decodeOne_empty_token titleToNumber_def)
qed

text \<open>
  C6 as stated fails: the error does not carry the original token. The token \<^verbatim>\<open>zz\<close>
  decodes to 702, outside \<open>[1, 3]\<close>, and the error carries \<^verbatim>\<open>ZZ\<close>.
\<close>

theorem decodeOne_original_token_counterexample:
  "spec_decodedValue (normalise stub_ext ''zz'') = Some 702 \<and> \<not> (702 :: int) \<le> 3
   \<and> decodeOne stub_ext ''zz'' 3 = Fails (ColumnOutOfRange ''ZZ'')
   \<and> decodeOne stub_ext ''zz'' 3 \<noteq> Fails (ColumnOutOfRange ''zz'')"
  by code_simp

text \<open>
  C6, amended. The decoded value is the value of the specification (\<open>spec_decodedValue\<close>
  of the normalised token), not what the code computes. For a reference that is not empty
  after trimming and whose decoded value \<open>v\<close> fits a signed 64-bit integer: when \<open>v\<close>
  lies outside \<open>[1, w]\<close>, decoding fails with the out-of-range error carrying the
  normalised token (trimmed and upper-cased); and decoding succeeds exactly when
  \<open>1 \<le> v \<le> w\<close>, with \<open>v\<close> as its result. A reference that is not empty after
  trimming and has no decoded value fails with the invalid-number error, so it does not
  succeed either. This holds for every width \<open>w\<close> and whatever the library does beyond
  ASCII.
\<close>

theorem decodeOne_range_check:
  "(normalise x c \<noteq> [] \<and> spec_decodedValue (normalise x c) = Some v
      \<and> - (2 ^ 63) \<le> v \<and> v < 2 ^ 63 \<longrightarrow>
      (v < 1 \<or> w < v \<longrightarrow> decodeOne x c w = Fails (ColumnOutOfRange (normalise x c)))
      \<and> ((\<exists>v'. decodeOne x c w = Returns v') \<longleftrightarrow> 1 \<le> v \<and> v \<le> w)
      \<and> (1 \<le> v \<and> v \<le> w \<longrightarrow> decodeOne x c w = Returns v))
   \<and> (normalise x c \<noteq> [] \<and> spec_decodedValue (normalise x c) = None \<longrightarrow>
        decodeOne x c w = Fails (InvalidColumnNumber (normalise x c)))"
proof -
  have a: "decodeOne x c w =
      (if v < 1 \<or> w < v then Fails (ColumnOutOfRange (normalise x c)) else Returns v)"
    if "normalise x c \<noteq> []" "spec_decodedValue (normalise x c) = Some v"
      "- (2 ^ 63) \<le> v" "v < 2 ^ 63"
    using colNumberOf_spec_value [OF that] that(1) by (simp add: decodeOne_eq)
  have b: "decodeOne x c w = Fails (InvalidColumnNumber (normalise x c))"
    if "normalise x c \<noteq> []" "spec_decodedValue (normalise x c) = None"
    using colNumberOf_spec_none [OF that] that(1) by (simp add: decodeOne_eq)
  from a b show ?thesis by auto
qed

theorem decodeOne_range_check_witness:
  "decodeOne stub_ext ''zz'' 3 = Fails (ColumnOutOfRange (normalise stub_ext ''zz''))
   \<and> \<not> (\<exists>v'. decodeOne stub_ext ''zz'' 3 = Returns v')
   \<and> (\<exists>v'. decodeOne stub_ext ''b'' 3 = Returns v')
   \<and> decodeOne stub_ext ''b'' 3 = Returns 2
   \<and> decodeOne stub_ext ''1A'' 3 = Fails (InvalidColumnNumber (normalise stub_ext ''1A''))"
proof -
  have n: "normalise stub_ext ''zz'' \<noteq> []"
    "spec_decodedValue (normalise stub_ext ''zz'') = Some 702"
    "normalise stub_ext ''b'' \<noteq> []" "spec_decodedValue (normalise stub_ext ''b'') = Some 2"
    "normalise stub_ext ''1A'' \<noteq> []" "spec_decodedValue (normalise stub_ext ''1A'') = None"
    by code_simp+
  show ?thesis
    using decodeOne_range_check [of stub_ext "''zz''" 702 3]
      decodeOne_range_check [of stub_ext "''b''" 2 3]
      decodeOne_range_check [of stub_ext "''1A''" _ 3] n
    by simp
qed

text \<open>
  C8. The selector returns the indices in the order of the references, one for each:
  it returns \<open>colNumbers\<close> exactly when the two lists have the same length and element
  \<open>k\<close> of \<open>colNumbers\<close> is the decoding of reference \<open>k\<close> (nothing excludes duplicates);
  and when the references before one decode and that one fails, the selector fails with
  the error of that reference. The same holds for the empty list of references.
\<close>

theorem decodeColNumbers_in_order:
  "(decodeColNumbers x refs w = Returns colNumbers \<longleftrightarrow>
      list_all2 (\<lambda>c v. decodeOne x c w = Returns v) refs colNumbers)
   \<and> (decodeColNumbers x refs w = Returns colNumbers \<longrightarrow>
        length colNumbers = length refs
        \<and> (\<forall>k<length refs. decodeOne x (refs ! k) w = Returns (colNumbers ! k)))
   \<and> (list_all (\<lambda>c. \<exists>v. decodeOne x c w = Returns v) pre \<and> decodeOne x c w = Fails err \<longrightarrow>
        decodeColNumbers x (pre @ c # post) w = Fails err)"
  using decodeColNumbers_first_failure [of x w pre c err post]
  by (auto simp: decodeColNumbers_Returns_iff list_all2_conv_all_nth)

theorem decodeColNumbers_in_order_witness:
  "decodeColNumbers stub_ext [''b'', ''1'', ''B''] 3 = Returns [2, 1, 2]
   \<and> length [2, 1, 2 :: int] = length [''b'', ''1'', ''B'']
   \<and> decodeColNumbers stub_ext ([''a''] @ ''zz'' # [''1'']) 3 = Fails (ColumnOutOfRange ''ZZ'')"
  using decodeColNumbers_in_order [of stub_ext "[''b'', ''1'', ''B'']" 3 "[2, 1, 2]" "[''a'']" "''zz''"
      "ColumnOutOfRange ''ZZ''" "[''1'']"]
  by (simp add: decodeOne_examples)

subsection \<open>The row mapper\<close>

lemma gatherCols_valid:
  "validFor cols row \<Longrightarrow> gatherCols acc cols row = Returns (acc @ batchOf cols row)"
  by (induction cols arbitrary: acc) (simp_all add: validFor_def batchOf_def)

lemma validFor_nth:
  "validFor cols row \<Longrightarrow> i < length cols \<Longrightarrow> 1 \<le> cols ! i \<and> cols ! i \<le> int (length row)"
  by (simp add: validFor_def list_all_length)

lemma scatterCols_valid:
  assumes "validFor cols row" "k + length vs \<le> length cols"
  shows "\<exists>row'. scatterCols cols k vs row = Returns row' \<and> length row' = length row
     \<and> (\<forall>j<length row. (\<forall>i<length vs. nat (cols ! (k + i) - 1) \<noteq> j) \<longrightarrow> row' ! j = row ! j)
     \<and> (\<forall>i<length vs. (\<forall>i'. i < i' \<and> i' < length vs \<longrightarrow> cols ! (k + i') \<noteq> cols ! (k + i))
            \<longrightarrow> row' ! nat (cols ! (k + i) - 1) = vs ! i)"
  using assms
proof (induction vs arbitrary: k row)
  case Nil
  then show ?case by simp
next
  case (Cons v vs)
  let ?j0 = "nat (cols ! k - 1)"
  let ?row1 = "row[?j0 := v]"
  from Cons.prems have k: "k < length cols" by simp
  with Cons.prems have ck: "1 \<le> cols ! k" "cols ! k \<le> int (length row)"
    using validFor_nth by blast+
  then have j0: "?j0 < length row" by linarith
  have v1: "validFor cols ?row1" using Cons.prems(1) by (simp add: validFor_def)
  have "Suc k + length vs \<le> length cols" using Cons.prems(2) by simp
  from Cons.IH [OF v1 this] obtain row' where
    r: "scatterCols cols (Suc k) vs ?row1 = Returns row'" and
    l: "length row' = length row" and
    f: "\<forall>j<length row. (\<forall>i<length vs. nat (cols ! (Suc k + i) - 1) \<noteq> j) \<longrightarrow> row' ! j = ?row1 ! j" and
    w: "\<forall>i<length vs. (\<forall>i'. i < i' \<and> i' < length vs \<longrightarrow> cols ! (Suc k + i') \<noteq> cols ! (Suc k + i))
            \<longrightarrow> row' ! nat (cols ! (Suc k + i) - 1) = vs ! i"
    by auto
  have step: "scatterCols cols k (v # vs) row = Returns row'"
    using k ck r by simp
  have frame: "row' ! j = row ! j"
    if "j < length row" "\<forall>i<length (v # vs). nat (cols ! (k + i) - 1) \<noteq> j" for j
  proof -
    from that(2) have "nat (cols ! (k + 0) - 1) \<noteq> j" by blast
    then have a: "?row1 ! j = row ! j" by simp
    have "\<forall>i<length vs. nat (cols ! (Suc k + i) - 1) \<noteq> j"
    proof (intro allI impI)
      fix i assume "i < length vs"
      then have "Suc i < length (v # vs)" by simp
      with that(2) have "nat (cols ! (k + Suc i) - 1) \<noteq> j" by blast
      then show "nat (cols ! (Suc k + i) - 1) \<noteq> j" by simp
    qed
    with f that(1) have "row' ! j = ?row1 ! j" by blast
    with a show ?thesis by simp
  qed
  have last: "row' ! nat (cols ! (k + i) - 1) = (v # vs) ! i"
    if "i < length (v # vs)"
       "\<forall>i'. i < i' \<and> i' < length (v # vs) \<longrightarrow> cols ! (k + i') \<noteq> cols ! (k + i)" for i
  proof (cases i)
    case 0
    have "\<forall>i<length vs. nat (cols ! (Suc k + i) - 1) \<noteq> ?j0"
    proof (intro allI impI)
      fix i' assume i': "i' < length vs"
      with that(2) 0 have ne: "cols ! (k + Suc i') \<noteq> cols ! k" by auto
      from i' Cons.prems(2) have "Suc k + i' < length cols" by simp
      with Cons.prems(1) have "1 \<le> cols ! (Suc k + i')" using validFor_nth by blast
      with ne ck show "nat (cols ! (Suc k + i') - 1) \<noteq> ?j0" by auto
    qed
    with f j0 have "row' ! ?j0 = ?row1 ! ?j0" by blast
    with j0 0 show ?thesis by simp
  next
    case (Suc i2)
    with that(1) have i2: "i2 < length vs" by simp
    have "\<forall>i'. i2 < i' \<and> i' < length vs \<longrightarrow> cols ! (Suc k + i') \<noteq> cols ! (Suc k + i2)"
    proof (intro allI impI)
      fix i' assume "i2 < i' \<and> i' < length vs"
      then have "i < Suc i' \<and> Suc i' < length (v # vs)" using Suc by simp
      with that(2) have "cols ! (k + Suc i') \<noteq> cols ! (k + i)" by blast
      then show "cols ! (Suc k + i') \<noteq> cols ! (Suc k + i2)" using Suc by simp
    qed
    with w i2 have "row' ! nat (cols ! (Suc k + i2) - 1) = vs ! i2" by blast
    then show ?thesis using Suc by simp
  qed
  from step l frame last show ?case by blast
qed

lemma scatterCols_too_long:
  "validFor cols row \<Longrightarrow> k \<le> length cols \<Longrightarrow> length cols < k + length vs \<Longrightarrow>
   scatterCols cols k vs row = Panics"
proof (induction vs arbitrary: k row)
  case Nil
  then show ?case by simp
next
  case (Cons v vs)
  show ?case
  proof (cases "k < length cols")
    case True
    with Cons.prems have ck: "1 \<le> cols ! k" "cols ! k \<le> int (length row)"
      using validFor_nth by blast+
    have "validFor cols (row[nat (cols ! k - 1) := v])"
      using Cons.prems(1) by (simp add: validFor_def)
    moreover have "Suc k \<le> length cols" using True by simp
    moreover have "length cols < Suc k + length vs" using Cons.prems(3) by simp
    ultimately have "scatterCols cols (Suc k) vs (row[nat (cols ! k - 1) := v]) = Panics"
      by (rule Cons.IH)
    with True ck show ?thesis by simp
  next
    case False
    then show ?thesis by simp
  qed
qed

lemma translateRow_whole:
  "translateRow tr [] row =
     (case tr row of Fails err \<Rightarrow> Fails (FailedToTranslate err) | Panics \<Rightarrow> Panics
      | Returns strOut \<Rightarrow> Returns strOut)"
  by (simp add: translateRow_def)

lemma translateRow_cols:
  "colNumbers \<noteq> [] \<Longrightarrow> validFor colNumbers row \<Longrightarrow>
   translateRow tr colNumbers row =
     (case tr (batchOf colNumbers row) of Fails err \<Rightarrow> Fails (FailedToTranslate err)
      | Panics \<Rightarrow> Panics
      | Returns strOut \<Rightarrow> scatterCols colNumbers 0 strOut row)"
  by (simp add: translateRow_def gatherCols_valid)

lemma translateRow_cols_written:
  assumes "colNumbers \<noteq> []" "validFor colNumbers row"
    "tr (batchOf colNumbers row) = Returns strOut" "length strOut \<le> length colNumbers"
  shows "\<exists>row'. translateRow tr colNumbers row = Returns row' \<and> length row' = length row
     \<and> (\<forall>j<length row. (\<forall>k<length strOut. colNumbers ! k \<noteq> int j + 1) \<longrightarrow> row' ! j = row ! j)
     \<and> (\<forall>k<length strOut.
           (\<forall>k'. k < k' \<and> k' < length strOut \<longrightarrow> colNumbers ! k' \<noteq> colNumbers ! k)
           \<longrightarrow> row' ! nat (colNumbers ! k - 1) = strOut ! k)"
proof -
  from assms(4) have "0 + length strOut \<le> length colNumbers" by simp
  from scatterCols_valid [OF assms(2) this] obtain row' where
    r: "scatterCols colNumbers 0 strOut row = Returns row'" and
    l: "length row' = length row" and
    f: "\<forall>j<length row. (\<forall>i<length strOut. nat (colNumbers ! i - 1) \<noteq> j) \<longrightarrow> row' ! j = row ! j" and
    w: "\<forall>i<length strOut.
          (\<forall>i'. i < i' \<and> i' < length strOut \<longrightarrow> colNumbers ! i' \<noteq> colNumbers ! i)
          \<longrightarrow> row' ! nat (colNumbers ! i - 1) = strOut ! i"
    by auto
  have t: "translateRow tr colNumbers row = Returns row'"
    using assms(1,2,3) r by (simp add: translateRow_cols)
  have f': "row' ! j = row ! j"
    if "j < length row" "\<forall>k<length strOut. colNumbers ! k \<noteq> int j + 1" for j
  proof -
    have "\<forall>i<length strOut. nat (colNumbers ! i - 1) \<noteq> j"
    proof (intro allI impI)
      fix i assume i: "i < length strOut"
      with that(2) have "colNumbers ! i \<noteq> int j + 1" by blast
      moreover from i assms(2,4) have "1 \<le> colNumbers ! i" using validFor_nth [of colNumbers row i] by simp
      ultimately show "nat (colNumbers ! i - 1) \<noteq> j" by auto
    qed
    with f that(1) show ?thesis by blast
  qed
  from t l f' w show ?thesis by blast
qed

lemma translateRow_cols_too_long:
  "colNumbers \<noteq> [] \<Longrightarrow> validFor colNumbers row \<Longrightarrow>
   tr (batchOf colNumbers row) = Returns strOut \<Longrightarrow> length colNumbers < length strOut \<Longrightarrow>
   translateRow tr colNumbers row = Panics"
  using scatterCols_too_long [of colNumbers row 0 strOut]
  by (simp add: translateRow_cols)

lemma translateRows_Returns_iff:
  "translateRows tr cols rows = Returns rows' \<longleftrightarrow>
   list_all2 (\<lambda>row row'. translateRow tr cols row = Returns row') rows rows'"
proof (induction rows arbitrary: rows')
  case Nil
  show ?case by auto
next
  case (Cons row rows)
  show ?case
  proof (cases rows')
    case Nil
    then show ?thesis by (simp split: outcome.splits)
  next
    case (Cons r rs)
    show ?thesis
      unfolding Cons list_all2_Cons Cons.IH [symmetric]
      by (auto split: outcome.splits)
  qed
qed

lemma translateRows_first_failure:
  "list_all (\<lambda>row. \<exists>row'. translateRow tr cols row = Returns row') pre \<Longrightarrow>
   translateRow tr cols row = Fails err \<Longrightarrow>
   translateRows tr cols (pre @ row # post) = Fails err"
  by (induction pre) (auto split: outcome.splits)

lemma translateRows_not_Returns:
  "row \<in> set rows \<Longrightarrow> \<forall>row'. translateRow tr cols row \<noteq> Returns row' \<Longrightarrow>
   translateRows tr cols rows \<noteq> Returns rows'"
  by (auto simp: translateRows_Returns_iff list_all2_conv_all_nth in_set_conv_nth)

lemma gatherCols_not_Fails: "gatherCols acc cols row \<noteq> Fails err"
  by (induction cols arbitrary: acc) simp_all

lemma scatterCols_not_Fails: "scatterCols cols k vs row \<noteq> Fails err"
  by (induction vs arbitrary: k row) simp_all

lemma translateRow_Fails:
  "translateRow tr cols row = Fails err \<Longrightarrow>
   \<exists>strInp e. tr strInp = Fails e \<and> err = FailedToTranslate e"
  by (auto simp: translateRow_def gatherCols_not_Fails scatterCols_not_Fails
      split: if_splits outcome.splits)

lemma translateBasic_nonempty: "translateBasic x cfg strInp = Returns strOut \<Longrightarrow> strOut \<noteq> []"
  by (auto simp: translateBasic_def Let_def split: option.splits if_splits prod.splits)

lemma translateAdvanced_nonempty: "translateAdvanced x cfg strInp = Returns strOut \<Longrightarrow> strOut \<noteq> []"
  by (auto simp: translateAdvanced_def Let_def split: option.splits if_splits prod.splits)

lemma dispatcher_nonempty: "dispatcher x cfg strInp = Returns strOut \<Longrightarrow> strOut \<noteq> []"
  using translateBasic_nonempty [of x cfg strInp strOut]
    translateAdvanced_nonempty [of x cfg strInp strOut]
  by (auto simp: dispatcher_def translateEx_def split: if_splits outcome.splits)

text \<open>
  C3. Column-subset mode, for a non-empty list of column numbers that lie within the row
  and a dispatcher that returns no more texts than it was given. The batch is the fields of
  the row at the column numbers, in their order. The row after the iteration has its
  length unchanged; every field whose column is not in the list is unchanged; and returned
  position \<open>k\<close> is found at column \<open>colNumbers ! k\<close>, when no later returned position has
  the same column (with a column listed twice the later write stays). The loop over the
  rows returns a table exactly when each of its rows is the result for the row at the same
  place. The table
  \<^verbatim>\<open>[["a","b","c"]]\<close> with the column numbers \<^verbatim>\<open>[2]\<close> and an upper-casing
  dispatcher gives \<^verbatim>\<open>[["a","B","c"]]\<close>.
\<close>

theorem column_subset_write_back:
  "(colNumbers \<noteq> [] \<and> validFor colNumbers row \<and> tr (batchOf colNumbers row) = Returns strOut
      \<and> length strOut \<le> length colNumbers \<longrightarrow>
      gatherCols [] colNumbers row = Returns (batchOf colNumbers row)
      \<and> (\<exists>row'. translateRow tr colNumbers row = Returns row' \<and> length row' = length row
            \<and> (\<forall>j<length row. int j + 1 \<notin> set colNumbers \<longrightarrow> row' ! j = row ! j)
            \<and> (\<forall>k<length strOut.
                  (\<forall>k'. k < k' \<and> k' < length strOut \<longrightarrow> colNumbers ! k' \<noteq> colNumbers ! k)
                  \<longrightarrow> row' ! nat (colNumbers ! k - 1) = strOut ! k)))
   \<and> (translateRows tr colNumbers rows = Returns rows' \<longleftrightarrow>
        list_all2 (\<lambda>r r'. translateRow tr colNumbers r = Returns r') rows rows')
   \<and> translateRows upcase [2] [[''a'', ''b'', ''c'']] = Returns [[''a'', ''B'', ''c'']]"
proof -
  have ex: "translateRows upcase [2] [[''a'', ''b'', ''c'']] = Returns [[''a'', ''B'', ''c'']]"
    by code_simp
  note tbl = translateRows_Returns_iff [of tr colNumbers rows rows']
  have main: "gatherCols [] colNumbers row = Returns (batchOf colNumbers row)
      \<and> (\<exists>row'. translateRow tr colNumbers row = Returns row' \<and> length row' = length row
            \<and> (\<forall>j<length row. int j + 1 \<notin> set colNumbers \<longrightarrow> row' ! j = row ! j)
            \<and> (\<forall>k<length strOut.
                  (\<forall>k'. k < k' \<and> k' < length strOut \<longrightarrow> colNumbers ! k' \<noteq> colNumbers ! k)
                  \<longrightarrow> row' ! nat (colNumbers ! k - 1) = strOut ! k))"
    if a: "colNumbers \<noteq> []" "validFor colNumbers row" "tr (batchOf colNumbers row) = Returns strOut"
      "length strOut \<le> length colNumbers"
  proof -
    from translateRow_cols_written [of colNumbers row tr strOut, OF a] obtain row' where
      t: "translateRow tr colNumbers row = Returns row'" and
      l: "length row' = length row" and
      f: "\<forall>j<length row. (\<forall>k<length strOut. colNumbers ! k \<noteq> int j + 1) \<longrightarrow> row' ! j = row ! j" and
      w: "\<forall>k<length strOut.
           (\<forall>k'. k < k' \<and> k' < length strOut \<longrightarrow> colNumbers ! k' \<noteq> colNumbers ! k)
           \<longrightarrow> row' ! nat (colNumbers ! k - 1) = strOut ! k"
      by blast
    have f': "\<forall>j<length row. int j + 1 \<notin> set colNumbers \<longrightarrow> row' ! j = row ! j"
    proof (intro allI impI)
      fix j assume j: "j < length row" "int j + 1 \<notin> set colNumbers"
      have "\<forall>k<length strOut. colNumbers ! k \<noteq> int j + 1"
      proof (intro allI impI)
        fix k assume "k < length strOut"
        with a(4) have "colNumbers ! k \<in> set colNumbers" by simp
        with j(2) show "colNumbers ! k \<noteq> int j + 1" by metis
      qed
      with f j(1) show "row' ! j = row ! j" by blast
    qed
    have "gatherCols [] colNumbers row = Returns (batchOf colNumbers row)"
      using a(2) by (simp add: gatherCols_valid)
    with t l f' w show ?thesis by blast
  qed
  from ex main tbl show ?thesis by blast
qed

theorem column_subset_write_back_witness:
  "gatherCols [] [3, 1] [''a'', ''b'', ''c''] = Returns [''c'', ''a'']
   \<and> (\<exists>row'. translateRow upcase [3, 1] [''a'', ''b'', ''c''] = Returns row' \<and> length row' = 3
        \<and> row' ! 1 = ''b'' \<and> row' ! 2 = ''C'' \<and> row' ! 0 = ''A'')"
proof -
  have h: "[3, 1 :: int] \<noteq> []" "validFor [3, 1] [''a'', ''b'', ''c'']"
    "upcase (batchOf [3, 1] [''a'', ''b'', ''c'']) = Returns [''C'', ''A'']"
    "length [''C'', ''A''] \<le> length [3, 1 :: int]"
    "batchOf [3, 1] [''a'', ''b'', ''c''] = [''c'', ''a'']"
    by code_simp+
  from column_subset_write_back [of "[3, 1]" "[''a'', ''b'', ''c'']" upcase "[''C'', ''A'']"
      "[]" "[]"] h
  obtain row' where
    g: "gatherCols [] [3, 1] [''a'', ''b'', ''c''] = Returns [''c'', ''a'']" and
    t: "translateRow upcase [3, 1] [''a'', ''b'', ''c''] = Returns row'" and
    l: "length row' = length [''a'', ''b'', ''c'']" and
    f: "\<forall>j<length [''a'', ''b'', ''c'']. int j + 1 \<notin> set [3, 1 :: int] \<longrightarrow> row' ! j = [''a'', ''b'', ''c''] ! j" and
    w: "\<forall>k<length [''C'', ''A''].
           (\<forall>k'. k < k' \<and> k' < length [''C'', ''A''] \<longrightarrow> [3, 1 :: int] ! k' \<noteq> [3, 1] ! k)
           \<longrightarrow> row' ! nat ([3, 1] ! k - 1) = [''C'', ''A''] ! k"
    by auto
  from f have "row' ! 1 = ''b''" by simp
  moreover from w have "row' ! nat ([3, 1] ! 0 - 1) = [''C'', ''A''] ! 0"
    by (auto simp: less_Suc_eq)
  then have "row' ! 2 = ''C''" by simp
  moreover from spec [OF w, of 1] have "row' ! nat ([3, 1] ! 1 - 1) = [''C'', ''A''] ! 1" by simp
  then have "row' ! 0 = ''A''" by simp
  ultimately show ?thesis using g t l by simp
qed

text \<open>
  C2 as stated fails: the service answers \<^verbatim>\<open>["X"]\<close> to every request, so the dispatcher
  returns one text for a batch of three (whole row) or two (columns 1 and 2). The mapper
  does not fail: the whole row becomes \<^verbatim>\<open>["X"]\<close>, and in column-subset mode only the
  first selected column is written.
\<close>

theorem mapper_length_mismatch_counterexample:
  "length [''X''] \<noteq> length [''a'', ''b'', ''c'']
   \<and> length [''X''] \<noteq> length (batchOf [1, 2] [''a'', ''b'', ''c''])
   \<and> dispatcher short_ext stub_config [''a'', ''b'', ''c''] = Returns [''X'']
   \<and> translateRows (dispatcher short_ext stub_config) [] [[''a'', ''b'', ''c'']] = Returns [[''X'']]
   \<and> dispatcher short_ext stub_config (batchOf [1, 2] [''a'', ''b'', ''c'']) = Returns [''X'']
   \<and> translateRows (dispatcher short_ext stub_config) [1, 2] [[''a'', ''b'', ''c'']]
       = Returns [[''X'', ''b'', ''c'']]"
  by code_simp

text \<open>
  C2, amended. The mapper has no length check of its own. It fails with an error when the
  dispatcher fails, and the dispatcher never returns an empty list (it fails when the
  service returns no translation). Otherwise, in whole-row mode the returned list replaces
  the row whatever its length; in column-subset mode (column numbers within the row) a
  returned list no longer than the batch is written back position by position, returned
  position \<open>k\<close> to column \<open>colNumbers ! k\<close>, and every field that no returned position
  addresses is left as it was.
\<close>

theorem mapper_has_no_length_check:
  "(dispatcher x cfg strInp = Returns strOut \<longrightarrow> strOut \<noteq> [])
   \<and> (tr row = Fails err \<longrightarrow> translateRow tr [] row = Fails (FailedToTranslate err))
   \<and> (colNumbers \<noteq> [] \<and> validFor colNumbers row \<and> tr (batchOf colNumbers row) = Fails err \<longrightarrow>
        translateRow tr colNumbers row = Fails (FailedToTranslate err))
   \<and> (tr row = Returns strOut \<longrightarrow> translateRow tr [] row = Returns strOut)
   \<and> (colNumbers \<noteq> [] \<and> validFor colNumbers row \<and> tr (batchOf colNumbers row) = Returns strOut
        \<and> length strOut \<le> length colNumbers \<longrightarrow>
        (\<exists>row'. translateRow tr colNumbers row = Returns row' \<and> length row' = length row
           \<and> (\<forall>j<length row. (\<forall>k<length strOut. colNumbers ! k \<noteq> int j + 1) \<longrightarrow> row' ! j = row ! j)
           \<and> (\<forall>k<length strOut.
                 (\<forall>k'. k < k' \<and> k' < length strOut \<longrightarrow> colNumbers ! k' \<noteq> colNumbers ! k)
                 \<longrightarrow> row' ! nat (colNumbers ! k - 1) = strOut ! k)))"
  using dispatcher_nonempty [of x cfg strInp strOut]
    translateRow_cols_written [of colNumbers row tr strOut]
  by (simp add: translateRow_whole translateRow_cols)

theorem mapper_has_no_length_check_witness:
  "[''X''] \<noteq> ([] :: string list)
   \<and> translateRow (\<lambda>strInp. Fails NoTranslationReturned) [] [''a'', ''b'', ''c'']
       = Fails (FailedToTranslate NoTranslationReturned)
   \<and> translateRow (\<lambda>strInp. Fails NoTranslationReturned) [1, 2] [''a'', ''b'', ''c'']
       = Fails (FailedToTranslate NoTranslationReturned)
   \<and> translateRow (dispatcher short_ext stub_config) [] [''a'', ''b'', ''c''] = Returns [''X'']
   \<and> (\<exists>row'. translateRow (dispatcher short_ext stub_config) [1, 2] [''a'', ''b'', ''c'']
                = Returns row'
        \<and> length row' = 3 \<and> row' ! 1 = ''b'' \<and> row' ! 2 = ''c'' \<and> row' ! 0 = ''X'')"
proof -
  let ?row = "[''a'', ''b'', ''c'']"
  have h: "dispatcher short_ext stub_config ?row = Returns [''X'']"
    "[1, 2 :: int] \<noteq> []" "validFor [1, 2] ?row"
    "dispatcher short_ext stub_config (batchOf [1, 2] ?row) = Returns [''X'']"
    "length [''X''] \<le> length [1, 2 :: int]"
    by code_simp+
  have a: "[''X''] \<noteq> ([] :: string list)
    \<and> translateRow (dispatcher short_ext stub_config) [] ?row = Returns [''X'']"
    using mapper_has_no_length_check [of short_ext stub_config ?row "[''X'']"
        "dispatcher short_ext stub_config" ?row _ "[]"] h(1)
    by simp
  have b: "translateRow (\<lambda>strInp. Fails NoTranslationReturned) [] ?row
       = Fails (FailedToTranslate NoTranslationReturned)
     \<and> translateRow (\<lambda>strInp. Fails NoTranslationReturned) [1, 2] ?row
       = Fails (FailedToTranslate NoTranslationReturned)"
    using mapper_has_no_length_check [of _ _ _ "[]" "\<lambda>strInp. Fails NoTranslationReturned" ?row
        NoTranslationReturned "[1, 2]"] h(2,3)
    by simp
  from mapper_has_no_length_check [of short_ext stub_config ?row "[''X'']"
        "dispatcher short_ext stub_config" ?row _ "[1, 2]"] h
  obtain row' where
    t: "translateRow (dispatcher short_ext stub_config) [1, 2] ?row = Returns row'" and
    l: "length row' = length ?row" and
    f: "\<forall>j<length ?row. (\<forall>k<length [''X'']. [1, 2 :: int] ! k \<noteq> int j + 1) \<longrightarrow> row' ! j = ?row ! j" and
    w: "\<forall>k<length [''X''].
           (\<forall>k'. k < k' \<and> k' < length [''X''] \<longrightarrow> [1, 2 :: int] ! k' \<noteq> [1, 2] ! k)
           \<longrightarrow> row' ! nat ([1, 2] ! k - 1) = [''X''] ! k"
    by auto
  from f have "row' ! 1 = ''b''" by simp
  moreover from f have "row' ! 2 = ''c''" by simp
  moreover from w have "row' ! 0 = ''X''" by auto
  ultimately show ?thesis using a b t l by simp
qed

text \<open>
  C5. On the empty list of references the selector returns the empty list of column
  numbers, whatever the width. With no column numbers the mapper submits each row whole
  and the returned batch becomes the row: the iteration returns what the dispatcher
  returns for the row, and the loop returns \<open>rows'\<close> exactly when each row of \<open>rows'\<close>
  is the dispatcher's answer to the row at the same place. In the command, with no
  \<^verbatim>\<open>--column\<close> and a table of at least one row, the table written is the list of these
  answers.
\<close>

theorem empty_selection_is_whole_row:
  "decodeColNumbers x [] w0 = Returns []
   \<and> translateRow tr [] row =
       (case tr row of Fails err \<Rightarrow> Fails (FailedToTranslate err) | Panics \<Rightarrow> Panics
        | Returns strOut \<Rightarrow> Returns strOut)
   \<and> (translateRows tr [] rows = Returns rows' \<longleftrightarrow>
        list_all2 (\<lambda>row row'. tr row = Returns row') rows rows')
   \<and> (inputFile cfg \<noteq> outputFile cfg \<and> csvColumn cfg = [] \<and> readInput x cfg w = Returns csv
        \<and> csv \<noteq> [] \<and> list_all2 (\<lambda>row row'. dispatcher x cfg row = Returns row') csv csv' \<longrightarrow>
        csvCmd x cfg w = writeSliceToCSV x w (outputFile cfg) csv' None (csvDelimiter cfg))"
proof -
  have whole: "translateRow t [] r = Returns r' \<longleftrightarrow> t r = Returns r'" for t r r'
    by (simp add: translateRow_whole split: outcome.splits)
  have rows: "translateRows t [] rs = Returns rs' \<longleftrightarrow> list_all2 (\<lambda>row row'. t row = Returns row') rs rs'"
    for t rs rs'
    by (simp add: translateRows_Returns_iff whole)
  have cmd: "csvCmd x cfg w = writeSliceToCSV x w (outputFile cfg) csv' None (csvDelimiter cfg)"
    if "inputFile cfg \<noteq> outputFile cfg" "csvColumn cfg = []" "readInput x cfg w = Returns csv"
      "csv \<noteq> []" "list_all2 (\<lambda>row row'. dispatcher x cfg row = Returns row') csv csv'"
  proof -
    from that(5) have "translateRows (dispatcher x cfg) [] csv = Returns csv'"
      by (simp add: rows)
    then have "translateRows (\<lambda>strInp. translateEx x cfg strInp (useAdvanced cfg)) [] csv = Returns csv'"
      by (simp add: dispatcher_def [abs_def])
    with that(1-4) show ?thesis
      by (simp add: csvCmd_def readInput_def decodeColNumbers_Nil)
  qed
  from rows [of tr rows rows'] cmd show ?thesis
    by (simp add: decodeColNumbers_Nil translateRow_whole)
qed

theorem empty_selection_is_whole_row_witness:
  "translateRows (\<lambda>row. if row = [''a'', ''b'', ''c''] then Returns [''X'', ''Y'', ''Z''] else Panics)
       [] [[''a'', ''b'', ''c'']] = Returns [[''X'', ''Y'', ''Z'']]
   \<and> csvCmd stub_ext stub_config (stub_world ''a,b,c'')
       = writeSliceToCSV stub_ext (stub_world ''a,b,c'') (outputFile stub_config)
           [[''A'', ''B'', ''C'']] None (csvDelimiter stub_config)"
proof -
  have h: "inputFile stub_config \<noteq> outputFile stub_config" "csvColumn stub_config = []"
    "readInput stub_ext stub_config (stub_world ''a,b,c'') = Returns [[''a'', ''b'', ''c'']]"
    "dispatcher stub_ext stub_config [''a'', ''b'', ''c''] = Returns [''A'', ''B'', ''C'']"
    by code_simp+
  show ?thesis
    using empty_selection_is_whole_row [of stub_ext _
        "\<lambda>row. if row = [''a'', ''b'', ''c''] then Returns [''X'', ''Y'', ''Z''] else Panics" _
        "[[''a'', ''b'', ''c'']]" "[[''X'', ''Y'', ''Z'']]" stub_config
        "stub_world ''a,b,c''" "[[''a'', ''b'', ''c'']]" "[[''A'', ''B'', ''C'']]"] h
    by simp
qed

subsection \<open>The command\<close>

lemma csvCmd_after_decode:
  "inputFile cfg \<noteq> outputFile cfg \<Longrightarrow> readInput x cfg w = Returns csv \<Longrightarrow> csv \<noteq> [] \<Longrightarrow>
   decodeColNumbers x (csvColumn cfg) (int (length (hd csv))) = Returns colNumbers \<Longrightarrow>
   csvCmd x cfg w =
     (case translateRows (dispatcher x cfg) colNumbers csv of
        Fails err \<Rightarrow> (Fails err, w)
      | Panics \<Rightarrow> (Panics, w)
      | Returns csv' \<Rightarrow> writeSliceToCSV x w (outputFile cfg) csv' None (csvDelimiter cfg))"
  by (simp add: csvCmd_def readInput_def dispatcher_def [abs_def])

text \<open>
  C7. Once the table is read (at least one row) and the columns are decoded: when the
  rows before one are translated and translating that one fails, the command returns that
  error and the world is as it was (nothing is created or written); a failure of a row is
  an error of the dispatcher on the batch of that row, wrapped once; whenever some row is
  not translated the command does not succeed and leaves the world as it was; and a
  command that changes the world has translated every row.
\<close>

theorem translation_failure_aborts_without_output:
  "inputFile cfg \<noteq> outputFile cfg \<and> readInput x cfg w = Returns csv \<and> csv \<noteq> []
   \<and> decodeColNumbers x (csvColumn cfg) (int (length (hd csv))) = Returns colNumbers \<longrightarrow>
     (csv = pre @ row # post
        \<and> list_all (\<lambda>r. \<exists>r'. translateRow (dispatcher x cfg) colNumbers r = Returns r') pre
        \<and> translateRow (dispatcher x cfg) colNumbers row = Fails err \<longrightarrow>
        csvCmd x cfg w = (Fails err, w)
        \<and> (\<exists>strInp e. dispatcher x cfg strInp = Fails e \<and> err = FailedToTranslate e))
     \<and> ((\<exists>r\<in>set csv. \<forall>r'. translateRow (dispatcher x cfg) colNumbers r \<noteq> Returns r') \<longrightarrow>
          fst (csvCmd x cfg w) \<noteq> Returns () \<and> snd (csvCmd x cfg w) = w)
     \<and> (snd (csvCmd x cfg w) \<noteq> w \<longrightarrow>
          (\<forall>r\<in>set csv. \<exists>r'. translateRow (dispatcher x cfg) colNumbers r = Returns r'))"
proof (intro impI, elim conjE)
  assume a: "inputFile cfg \<noteq> outputFile cfg" "readInput x cfg w = Returns csv" "csv \<noteq> []"
    "decodeColNumbers x (csvColumn cfg) (int (length (hd csv))) = Returns colNumbers"
  note cmd = csvCmd_after_decode [OF a]
  let ?tr = "dispatcher x cfg"
  have first: "csvCmd x cfg w = (Fails err, w)
      \<and> (\<exists>strInp e. dispatcher x cfg strInp = Fails e \<and> err = FailedToTranslate e)"
    if b: "csv = pre @ row # post"
      "list_all (\<lambda>r. \<exists>r'. translateRow ?tr colNumbers r = Returns r') pre"
      "translateRow ?tr colNumbers row = Fails err"
  proof -
    from b(2,3) have "translateRows ?tr colNumbers (pre @ row # post) = Fails err"
      by (rule translateRows_first_failure)
    with b(1) cmd have "csvCmd x cfg w = (Fails err, w)" by simp
    with translateRow_Fails [OF b(3)] show ?thesis by simp
  qed
  have none: "fst (csvCmd x cfg w) \<noteq> Returns () \<and> snd (csvCmd x cfg w) = w"
    if c: "\<exists>r\<in>set csv. \<forall>r'. translateRow ?tr colNumbers r \<noteq> Returns r'"
  proof -
    from c obtain r where "r \<in> set csv" "\<forall>r'. translateRow ?tr colNumbers r \<noteq> Returns r'"
      by blast
    then have "\<And>csv'. translateRows ?tr colNumbers csv \<noteq> Returns csv'"
      by (rule translateRows_not_Returns)
    with cmd show ?thesis by (simp split: outcome.splits)
  qed
  have only: "\<forall>r\<in>set csv. \<exists>r'. translateRow ?tr colNumbers r = Returns r'"
    if "snd (csvCmd x cfg w) \<noteq> w"
    using that none by blast
  from first none only
  show "(csv = pre @ row # post
        \<and> list_all (\<lambda>r. \<exists>r'. translateRow ?tr colNumbers r = Returns r') pre
        \<and> translateRow ?tr colNumbers row = Fails err \<longrightarrow>
        csvCmd x cfg w = (Fails err, w)
        \<and> (\<exists>strInp e. dispatcher x cfg strInp = Fails e \<and> err = FailedToTranslate e))
     \<and> ((\<exists>r\<in>set csv. \<forall>r'. translateRow ?tr colNumbers r \<noteq> Returns r') \<longrightarrow>
          fst (csvCmd x cfg w) \<noteq> Returns () \<and> snd (csvCmd x cfg w) = w)
     \<and> (snd (csvCmd x cfg w) \<noteq> w \<longrightarrow>
          (\<forall>r\<in>set csv. \<exists>r'. translateRow ?tr colNumbers r = Returns r'))"
    by blast
qed

theorem translation_failure_aborts_without_output_witness:
  "csvCmd failing_ext (stub_config\<lparr>csvColumn := [''A'']\<rparr>) (stub_world people)
     = (Fails (FailedToTranslate (FailedToTranslate (FailedToTranslate (External ''quota exceeded'')))),
        stub_world people)
   \<and> (\<exists>r'. translateRow (dispatcher stub_ext (stub_config\<lparr>csvColumn := [''A'']\<rparr>)) [1]
               [''John'', ''30''] = Returns r')
   \<and> (\<exists>r'. translateRow (dispatcher stub_ext (stub_config\<lparr>csvColumn := [''A'']\<rparr>)) [1]
               [''Alice'', ''25''] = Returns r')"
proof -
  let ?cfg = "stub_config\<lparr>csvColumn := [''A'']\<rparr>"
  let ?w = "stub_world people"
  let ?csv = "[[''John'', ''30''], [''Alice'', ''25'']]"
  let ?err = "FailedToTranslate (FailedToTranslate (FailedToTranslate (External ''quota exceeded'')))"
  have h: "inputFile ?cfg \<noteq> outputFile ?cfg" "?csv \<noteq> []"
    "readInput failing_ext ?cfg ?w = Returns ?csv"
    "readInput stub_ext ?cfg ?w = Returns ?csv"
    "decodeColNumbers failing_ext (csvColumn ?cfg) (int (length (hd ?csv))) = Returns [1]"
    "decodeColNumbers stub_ext (csvColumn ?cfg) (int (length (hd ?csv))) = Returns [1]"
    "translateRow (dispatcher failing_ext ?cfg) [1] [''John'', ''30''] = Returns [''JOHN'', ''30'']"
    "translateRow (dispatcher failing_ext ?cfg) [1] [''Alice'', ''25''] = Fails ?err"
    "created (snd (csvCmd stub_ext ?cfg ?w)) = [''out.csv'']" "created ?w = []"
    by code_simp+
  have changed: "snd (csvCmd stub_ext ?cfg ?w) \<noteq> ?w"
  proof
    assume "snd (csvCmd stub_ext ?cfg ?w) = ?w"
    then have "created (snd (csvCmd stub_ext ?cfg ?w)) = created ?w" by simp
    with h(9,10) show False by simp
  qed
  have a: "csvCmd failing_ext ?cfg ?w = (Fails ?err, ?w)"
    using translation_failure_aborts_without_output [of ?cfg failing_ext ?w ?csv "[1]"
        "[[''John'', ''30'']]" "[''Alice'', ''25'']" "[]" ?err] h(1,2,3,5,7,8)
    by simp
  have b: "\<forall>r\<in>set ?csv. \<exists>r'. translateRow (dispatcher stub_ext ?cfg) [1] r = Returns r'"
    using translation_failure_aborts_without_output [of ?cfg stub_ext ?w ?csv "[1]"] h(1,2,4,6) changed
    by blast
  from a b show ?thesis by simp
qed

lemma csv_end_to_end_example:
  "fst (csvCmd stub_ext (stub_config\<lparr>csvColumn := [''A'']\<rparr>) (stub_world people)) = Returns ()"
  "files (snd (csvCmd stub_ext (stub_config\<lparr>csvColumn := [''A'']\<rparr>) (stub_world people)))
     ''out.csv'' = Some ''JOHN,30\<newline>ALICE,25\<newline>''"
  "translateRows upcase [1] [[''John'', ''30''], [''Alice'', ''25'']]
     = Returns [[''JOHN'', ''30''], [''ALICE'', ''25'']]"
  by code_simp+

text \<open>
  C9. When the input path equals the output path the command fails with the error for
  that, whatever the files hold and whatever the libraries would do, and the world is as
  it was: the check comes before any file is read or written.
\<close>

theorem same_file_rejected_first:
  "inputFile cfg = outputFile cfg \<Longrightarrow> csvCmd x cfg w = (Fails (SameFile (inputFile cfg)), w)"
  by (simp add: csvCmd_def)

theorem same_file_rejected_first_witness:
  "csvCmd stub_ext (stub_config\<lparr>outputFile := ''in.csv''\<rparr>) (stub_world people)
     = (Fails (SameFile ''in.csv''), stub_world people)"
  using same_file_rejected_first [of "stub_config\<lparr>outputFile := ''in.csv''\<rparr>" stub_ext
      "stub_world people"]
  by (simp add: stub_config_def)

text \<open>
  C10. When the input parses to no record at all (and the two paths differ), the command
  does not return an error: it panics on \<^verbatim>\<open>csv[0]\<close>, and nothing is written. So a
  command that does not panic after reading the table has read at least one row.
\<close>

theorem empty_table_panics:
  "(inputFile cfg \<noteq> outputFile cfg \<and> readInput x cfg w = Returns [] \<longrightarrow>
      csvCmd x cfg w = (Panics, w))
   \<and> (inputFile cfg \<noteq> outputFile cfg \<and> readInput x cfg w = Returns csv
        \<and> fst (csvCmd x cfg w) \<noteq> Panics \<longrightarrow> csv \<noteq> [])"
  by (auto simp: csvCmd_def readInput_def)

theorem empty_table_panics_witness:
  "csvCmd stub_ext stub_config (stub_world []) = (Panics, stub_world [])
   \<and> [[''a'', ''b'', ''c'']] \<noteq> ([] :: string list list)"
proof -
  have h: "inputFile stub_config \<noteq> outputFile stub_config"
    "readInput stub_ext stub_config (stub_world []) = Returns []"
    "readInput stub_ext stub_config (stub_world ''a,b,c'') = Returns [[''a'', ''b'', ''c'']]"
    "fst (csvCmd stub_ext stub_config (stub_world ''a,b,c'')) = Returns ()"
    by code_simp+
  show ?thesis
    using empty_table_panics [of stub_config stub_ext "stub_world []"]
      empty_table_panics [of stub_config stub_ext "stub_world ''a,b,c''" "[[''a'', ''b'', ''c'']]"] h
    by simp
qed

end
